theory Spec2Isabelle
  imports Main
begin

section \<open>JavaScript values used by the handlers\<close>

text \<open>
  The handlers are Express middleware written in JavaScript. Only the fragment of the
  language the handlers use is modelled.

  A JavaScript number is modelled as a mathematical integer or \<open>NaN\<close>. Doubles are exact
  on integers of magnitude up to \<open>2 ^ 53\<close>, which covers every page number whose window can
  hold a row (an array has fewer than \<open>2 ^ 32\<close> elements).
\<close>

datatype jsnum = Num int | NaN

datatype jsval = Undefined | Bool bool | Str string | Number jsnum

datatype js_error = TypeError | DbFailure string

type_synonym db_error = string

type_synonym blob = "nat list"

text \<open>\<open>a - b\<close>, \<open>a * b\<close>, \<open>a + b\<close> and \<open>a > b\<close> on numbers: \<open>NaN\<close> is absorbing, and every
  comparison with \<open>NaN\<close> is false.\<close>

fun js_sub :: "jsnum \<Rightarrow> jsnum \<Rightarrow> jsnum" where
  "js_sub (Num a) (Num b) = Num (a - b)"
| "js_sub _ _ = NaN"

fun js_mul :: "jsnum \<Rightarrow> jsnum \<Rightarrow> jsnum" where
  "js_mul (Num a) (Num b) = Num (a * b)"
| "js_mul _ _ = NaN"

fun js_add :: "jsnum \<Rightarrow> jsnum \<Rightarrow> jsnum" where
  "js_add (Num a) (Num b) = Num (a + b)"
| "js_add _ _ = NaN"

fun js_gt :: "jsnum \<Rightarrow> jsnum \<Rightarrow> bool" where
  "js_gt (Num a) (Num b) = (a > b)"
| "js_gt _ _ = False"

text \<open>Strict equality \<open>===\<close>: same type and same value, except that \<open>NaN\<close> equals nothing.\<close>

fun strict_eq :: "jsval \<Rightarrow> jsval \<Rightarrow> bool" where
  "strict_eq (Number NaN) _ = False"
| "strict_eq _ (Number NaN) = False"
| "strict_eq a b = (a = b)"

text \<open>Truthiness, as tested by \<open>if (v)\<close>.\<close>

fun truthy :: "jsval \<Rightarrow> bool" where
  "truthy Undefined = False"
| "truthy (Bool b) = b"
| "truthy (Str s) = (s \<noteq> [])"
| "truthy (Number (Num i)) = (i \<noteq> 0)"
| "truthy (Number NaN) = False"

subsection \<open>Numbers to strings\<close>

definition digit_char :: "nat \<Rightarrow> char" where
  "digit_char d = char_of (48 + d)"

fun digits :: "nat \<Rightarrow> string" where
  "digits n = (if n < 10 then [digit_char n] else digits (n div 10) @ [digit_char (n mod 10)])"

declare digits.simps [simp del]

definition number_to_string :: "jsnum \<Rightarrow> string" where
  "number_to_string x =
     (case x of
        NaN \<Rightarrow> ''NaN''
      | Num i \<Rightarrow> (if i < 0 then CHR ''-'' # digits (nat (- i)) else digits (nat i)))"

text \<open>The conversion a template literal \<open>${v}\<close> applies to the value it splices in.\<close>

fun to_string :: "jsval \<Rightarrow> string" where
  "to_string Undefined = ''undefined''"
| "to_string (Bool b) = (if b then ''true'' else ''false'')"
| "to_string (Str s) = s"
| "to_string (Number x) = number_to_string x"

subsection \<open>Strings to numbers\<close>

text \<open>
  The conversion \<open>page - 1\<close> applies to its string operand. White space around the literal
  is dropped (the ASCII white space characters are modelled), the empty string is \<open>0\<close>,
  and an optionally signed run of decimal digits is its value. Literals with a fraction,
  an exponent or a radix prefix, and \<open>Infinity\<close>, have no counterpart among the integers;
  they are represented by \<open>NaN\<close> here, as every string that is not a numeric literal is.
  The properties below that speak of a page index assume that it is an integer.
\<close>

definition is_space :: "char \<Rightarrow> bool" where
  "is_space c = (c \<in> set [CHR '' '', CHR 0x09, CHR 0x0A, CHR 0x0B, CHR 0x0C, CHR 0x0D])"

definition trim :: "string \<Rightarrow> string" where
  "trim s = rev (dropWhile is_space (rev (dropWhile is_space s)))"

definition is_digit :: "char \<Rightarrow> bool" where
  "is_digit c = ((48::nat) \<le> of_char c \<and> (of_char c :: nat) \<le> 57)"

fun digits_value :: "nat \<Rightarrow> string \<Rightarrow> nat option" where
  "digits_value acc [] = Some acc"
| "digits_value acc (c # cs) =
     (if is_digit c then digits_value (10 * acc + ((of_char c :: nat) - 48)) cs else None)"

definition unsigned_value :: "string \<Rightarrow> nat option" where
  "unsigned_value s = (if s = [] then None else digits_value 0 s)"

definition string_to_number :: "string \<Rightarrow> jsnum" where
  "string_to_number s =
     (let t = trim s in
      if t = [] then Num 0
      else if hd t = CHR ''-'' then
        (case unsigned_value (tl t) of None \<Rightarrow> NaN | Some n \<Rightarrow> Num (- int n))
      else if hd t = CHR ''+'' then
        (case unsigned_value (tl t) of None \<Rightarrow> NaN | Some n \<Rightarrow> Num (int n))
      else
        (case unsigned_value t of None \<Rightarrow> NaN | Some n \<Rightarrow> Num (int n)))"

fun to_number :: "jsval \<Rightarrow> jsnum" where
  "to_number Undefined = NaN"
| "to_number (Bool b) = Num (if b then 1 else 0)"
| "to_number (Str s) = string_to_number s"
| "to_number (Number x) = x"

subsection \<open>Array.prototype.slice\<close>

text \<open>
  \<open>xs.slice(start, end)\<close>: both arguments are truncated to integers (\<open>NaN\<close> becomes \<open>0\<close>),
  a negative one counts from the end of the array, and both are clamped to
  \<open>[0, xs.length]\<close>. The result is empty when the start is not before the end. It never
  raises.
\<close>

fun to_integer :: "jsnum \<Rightarrow> int" where
  "to_integer NaN = 0"
| "to_integer (Num i) = i"

definition relative_index :: "int \<Rightarrow> int \<Rightarrow> int" where
  "relative_index len r = (if r < 0 then max (len + r) 0 else min r len)"

definition js_slice :: "'a list \<Rightarrow> jsnum \<Rightarrow> jsnum \<Rightarrow> 'a list" where
  "js_slice xs start end =
     (let len = int (length xs);
          k = relative_index len (to_integer start);
          final = relative_index len (to_integer end)
      in take (nat (final - k)) (drop (nat k) xs))"

section \<open>The search module\<close>

text \<open>
  The module that exports \<open>getSearchCategories\<close> and \<open>search\<close>. Both are middleware: they
  take the request, the response and the next function of the chain, send one statement
  to the database, and store what they found on the request before calling the next
  function.

  The database client is not part of the module. It is a parameter \<open>db\<close> that maps the
  text of a statement to the outcome the client passes to the query callback: an error,
  or the rows. Output written with \<open>console.log\<close> is not modelled.
\<close>

subsection \<open>Data\<close>

record search_row =
  first_name :: string
  last_name :: string
  user_id :: int
  thumbnail :: "blob option"
  admin_approved :: int
  tutoring_course_id :: int
  courseNumber :: int
  courseTitle :: string
  row_major_long_name :: string
  row_major_short_name :: string

record major_row =
  major_id :: int
  major_short_name :: string
  major_long_name :: string

text \<open>\<open>request.searchResult\<close> holds the empty string until rows are stored in it.\<close>

datatype search_result = ResultText string | ResultRows "search_row list"

text \<open>
  The properties of the request the module reads (\<open>request.query.search\<close>,
  \<open>request.query.category\<close>, \<open>request.query.page\<close>) and the ones it writes. A property
  that was never assigned is \<open>Undefined\<close>, or \<open>None\<close> where it would hold an array.
\<close>

record search_request =
  query_search :: jsval
  query_category :: jsval
  query_page :: jsval
  majors_short_name :: "string list option"
  majors_long_name :: "string list option"
  searchResult :: search_result
  searchTerm :: jsval
  category :: jsval
  images :: "blob list option"
  pageNum :: jsval
  upperBound :: jsval
  lowerBound :: jsval
  thumbnails :: "blob list option"
  totalNum :: jsval

text \<open>\<open>response.locals\<close>.\<close>

record search_response =
  searchCategoriesShortName :: "string list option"
  searchCategoriesLongName :: "string list option"

text \<open>
  What a handler leaves behind: the request and the response as it last wrote them, the
  statements it sent to the database, and how many times it called the next function.
\<close>

record ('q, 'p) handled =
  request_after :: 'q
  response_after :: 'p
  queries_sent :: "string list"
  callback_calls :: nat

subsection \<open>getSearchCategories\<close>

definition categories_query :: string where
  "categories_query = ''SELECT * FROM major''"

definition getSearchCategories ::
  "(string \<Rightarrow> db_error + major_row list) \<Rightarrow> search_request \<Rightarrow> search_response
     \<Rightarrow> js_error + (search_request, search_response) handled" where
  "getSearchCategories db request response =
     (let query = categories_query;
          request = request\<lparr>majors_short_name := Some [], majors_long_name := Some []\<rparr>
      in case db query of
           Inl err \<Rightarrow>
             Inr \<lparr>request_after = request, response_after = response,
                  queries_sent = [query], callback_calls = 1\<rparr>
         | Inr result \<Rightarrow>
             (let request = request\<lparr>majors_short_name := Some (map major_short_name result),
                                     majors_long_name := Some (map major_long_name result)\<rparr>;
                  response = response\<lparr>searchCategoriesShortName := majors_short_name request,
                                       searchCategoriesLongName := majors_long_name request\<rparr>
              in Inr \<lparr>request_after = request, response_after = response,
                      queries_sent = [query], callback_calls = 1\<rparr>))"

subsection \<open>The statement search builds\<close>

text \<open>
  The source writes the whole statement out four times, once as the default and once in
  each branch on the term and the category. Each is transcribed as it stands, one literal
  per source line.
\<close>

definition query_default :: string where
  "query_default =
      ''SELECT users.first_name,\<newline>'' @
      ''       users.last_name,\<newline>'' @
      ''       tutor_post.user_id,\<newline>'' @
      ''       tutor_post.post_thumbnail AS thumbnail,\<newline>'' @
      ''       tutor_post.admin_approved,\<newline>'' @
      ''       tutor_post.tutoring_course_id,\<newline>'' @
      ''       course.number AS courseNumber,\<newline>'' @
      ''       course.title AS courseTitle,\<newline>'' @
      ''       major.major_long_name,\<newline>'' @
      ''       major.major_short_name\<newline>'' @
      ''FROM tutor_post\<newline>'' @
      ''JOIN users ON tutor_post.user_id = users.user_id\<newline>'' @
      ''JOIN course ON tutor_post.tutoring_course_id = course.course_id\<newline>'' @
      ''JOIN major ON course.major = major.major_id\<newline>'' @
      ''WHERE tutor_post.admin_approved = 1''"

definition query_term_and_category :: "jsval \<Rightarrow> jsval \<Rightarrow> string" where
  "query_term_and_category searchTerm' category' =
      ''SELECT users.first_name,\<newline>'' @
      ''       users.last_name,\<newline>'' @
      ''       tutor_post.user_id,\<newline>'' @
      ''       tutor_post.post_thumbnail AS thumbnail,\<newline>'' @
      ''       tutor_post.admin_approved,\<newline>'' @
      ''       tutor_post.tutoring_course_id,\<newline>'' @
      ''       course.number AS courseNumber,\<newline>'' @
      ''       course.title AS courseTitle,\<newline>'' @
      ''       major.major_long_name,\<newline>'' @
      ''       major.major_short_name\<newline>'' @
      ''FROM tutor_post\<newline>'' @
      ''JOIN users ON tutor_post.user_id = users.user_id\<newline>'' @
      ''JOIN course ON tutor_post.tutoring_course_id = course.course_id\<newline>'' @
      ''JOIN major ON course.major = major.major_id\<newline>'' @
      ''WHERE tutor_post.admin_approved = 1 AND'' @
      ''(users.first_name LIKE '%'' @ to_string searchTerm' @ ''%' OR users.last_name LIKE '%'' @ to_string searchTerm' @ ''%')''"

definition query_term_only :: "jsval \<Rightarrow> jsval \<Rightarrow> string" where
  "query_term_only searchTerm' category' =
      ''SELECT users.first_name,\<newline>'' @
      ''       users.last_name,\<newline>'' @
      ''       tutor_post.user_id,\<newline>'' @
      ''       tutor_post.post_thumbnail AS thumbnail,\<newline>'' @
      ''       tutor_post.admin_approved,\<newline>'' @
      ''       tutor_post.tutoring_course_id,\<newline>'' @
      ''       course.number AS courseNumber,\<newline>'' @
      ''       course.title AS courseTitle,\<newline>'' @
      ''       major.major_long_name,\<newline>'' @
      ''       major.major_short_name\<newline>'' @
      ''FROM tutor_post\<newline>'' @
      ''JOIN users ON tutor_post.user_id = users.user_id\<newline>'' @
      ''JOIN course ON tutor_post.tutoring_course_id = course.course_id\<newline>'' @
      ''JOIN major ON course.major = major.major_id\<newline>'' @
      ''WHERE tutor_post.admin_approved = 1 AND'' @
      ''(users.first_name LIKE '%'' @ to_string searchTerm' @ ''%' OR users.last_name LIKE '%'' @ to_string searchTerm' @ ''%')''"

definition query_category_only :: "jsval \<Rightarrow> jsval \<Rightarrow> string" where
  "query_category_only searchTerm' category' =
      ''SELECT users.first_name,\<newline>'' @
      ''       users.last_name,\<newline>'' @
      ''       tutor_post.user_id,\<newline>'' @
      ''       tutor_post.post_thumbnail AS thumbnail,\<newline>'' @
      ''       tutor_post.admin_approved,\<newline>'' @
      ''       tutor_post.tutoring_course_id,\<newline>'' @
      ''       course.number AS courseNumber,\<newline>'' @
      ''       course.title AS courseTitle,\<newline>'' @
      ''       major.major_long_name,\<newline>'' @
      ''       major.major_short_name\<newline>'' @
      ''FROM tutor_post\<newline>'' @
      ''JOIN users ON tutor_post.user_id = users.user_id\<newline>'' @
      ''JOIN course ON tutor_post.tutoring_course_id = course.course_id\<newline>'' @
      ''JOIN major ON course.major = major.major_id\<newline>'' @
      ''WHERE tutor_post.admin_approved = 1 AND'' @
      ''major.major_short_name = '' @ [CHR 0x27] @ to_string category' @ [CHR 0x27]"

definition search_query :: "jsval \<Rightarrow> jsval \<Rightarrow> string" where
  "search_query searchTerm' category' =
     (if \<not> strict_eq searchTerm' (Str []) \<and> \<not> strict_eq category' (Str []) then
        query_term_and_category searchTerm' category'
      else if \<not> strict_eq searchTerm' (Str []) \<and> strict_eq category' (Str []) then
        query_term_only searchTerm' category'
      else if strict_eq searchTerm' (Str []) \<and> \<not> strict_eq category' (Str []) then
        query_category_only searchTerm' category'
      else query_default)"

subsection \<open>search\<close>

text \<open>
  The loop over the rows that collects the thumbnails: a row without one is skipped, the
  others are encoded. The encoding (\<open>Buffer.from(thumbnail.toString('base64'))\<close>) belongs
  to the runtime and is the parameter \<open>to_base64\<close>.
\<close>

fun collect_thumbnails :: "(blob \<Rightarrow> blob) \<Rightarrow> search_row list \<Rightarrow> blob list" where
  "collect_thumbnails to_base64 [] = []"
| "collect_thumbnails to_base64 (row # result) =
     (case thumbnail row of
        None \<Rightarrow> collect_thumbnails to_base64 result
      | Some t \<Rightarrow> to_base64 t # collect_thumbnails to_base64 result)"

definition search ::
  "(string \<Rightarrow> db_error + search_row list) \<Rightarrow> (blob \<Rightarrow> blob) \<Rightarrow> search_request
     \<Rightarrow> search_response \<Rightarrow> js_error + (search_request, search_response) handled" where
  "search db to_base64 request response =
     (let searchTerm' = query_search request;
          category' = query_category request;
          pageNum' = (if truthy (query_page request)
                      then js_sub (to_number (query_page request)) (Num 1) else Num 0);
          query = search_query searchTerm' category';
          request = request\<lparr>searchResult := ResultText [], searchTerm := Str [],
                             category := Str [], images := Some [],
                             pageNum := Number pageNum', upperBound := Str [],
                             lowerBound := Str []\<rparr>
      in case db query of
           Inl err \<Rightarrow>
             Inr \<lparr>request_after = request, response_after = response,
                  queries_sent = [query], callback_calls = 1\<rparr>
         | Inr result \<Rightarrow>
             (let thumbnails' = collect_thumbnails to_base64 result;
                  request = request\<lparr>searchTerm := searchTerm', category := category'\<rparr>;
                  request = request\<lparr>
                    searchResult := ResultRows
                      (js_slice result (js_mul pageNum' (Num 5))
                         (js_add (js_mul pageNum' (Num 5)) (Num 5))),
                    thumbnails := Some
                      (js_slice thumbnails' (js_mul pageNum' (Num 5))
                         (js_add (js_mul pageNum' (Num 5)) (Num 5)))\<rparr>;
                  request = request\<lparr>totalNum := Number (Num (int (length result)))\<rparr>;
                  request = request\<lparr>upperBound :=
                              Number (js_add (js_mul pageNum' (Num 5)) (Num 5))\<rparr>;
                  request = (if js_gt (js_add (js_mul pageNum' (Num 5)) (Num 5))
                                   (Num (int (length result)))
                             then request\<lparr>upperBound := Number (Num (int (length result)))\<rparr>
                             else request);
                  request = request\<lparr>lowerBound :=
                              Number (js_add (js_mul pageNum' (Num 5)) (Num 1))\<rparr>
              in Inr \<lparr>request_after = request, response_after = response,
                      queries_sent = [query], callback_calls = 1\<rparr>))"

section \<open>The dashboard controller\<close>

subsection \<open>Data\<close>

record message_row =
  message_id :: int
  date_sent :: string
  message_text :: string
  to_user :: int
  from_user :: int
  is_unread :: int
  from_user_first_name :: string
  from_user_last_name :: string

record message_entry =
  tutorName :: string
  messageText :: string
  dateTime :: string
  status :: string

record dashboard_request =
  session_userID :: jsval
  loginValidated :: jsval

text \<open>What the controller does with the response: a redirect, or a view rendered with the
  message list.\<close>

datatype dashboard_response = Redirect string | Render string "message_entry list"

subsection \<open>loadDashboard\<close>

text \<open>
  The first part of \<open>loadDashboard\<close>: the user id is read from the session, overwritten
  with \<open>2\<close>, and spliced into the statement.
\<close>

definition loadDashboard_query :: "dashboard_request \<Rightarrow> string" where
  "loadDashboard_query req =
     (let userID' = session_userID req;
          userID' = Number (Num 2)
      in
      ''SELECT messages.message_id,\<newline>'' @
      ''       messages.date_sent,\<newline>'' @
      ''       messages.message_text,\<newline>'' @
      ''       messages.to_user,\<newline>'' @
      ''       messages.from_user,\<newline>'' @
      ''       messages.is_unread,\<newline>'' @
      ''       users.first_name AS from_user_first_name,\<newline>'' @
      ''       users.last_name AS from_user_last_name\<newline>'' @
      ''FROM messages\<newline>'' @
      ''JOIN users ON users.user_id = messages.from_user\<newline>'' @
      ''WHERE messages.to_user = '' @ to_string userID' @ ''\<newline>'' @
      ''ORDER BY messages.date_sent DESC'')"

text \<open>
  The loop of the query callback. The first argument is the whole result, the second the
  rows from index \<open>i\<close> on, the third the \<open>messages\<close> array so far. Every round reads
  \<open>result[1]['is_unread']\<close>: where the result has no row at index \<open>1\<close>, \<open>result[1]\<close> is
  \<open>undefined\<close> and reading a property of it raises a \<open>TypeError\<close>.
\<close>

fun dashboard_messages ::
  "message_row list \<Rightarrow> message_row list \<Rightarrow> message_entry list
     \<Rightarrow> js_error + message_entry list" where
  "dashboard_messages result [] messages = Inr messages"
| "dashboard_messages result (row # rest) messages =
     (case drop 1 result of
        [] \<Rightarrow> Inl TypeError
      | row1 # _ \<Rightarrow>
          (let status' = (if truthy (Number (Num (is_unread row1))) then ''Unread''
                          else ''Read'')
           in dashboard_messages result rest
                (messages @
                 [\<lparr>tutorName = from_user_first_name row @ '' '' @ from_user_last_name row,
                   messageText = message_text row,
                   dateTime = date_sent row,
                   status = status'\<rparr>])))"

text \<open>
  The rest of \<open>loadDashboard\<close>: the statement is sent, and the callback renders the view.
  An error raised in the loop leaves the callback before anything is rendered.
\<close>

definition loadDashboard ::
  "(string \<Rightarrow> db_error + message_row list) \<Rightarrow> dashboard_request
     \<Rightarrow> js_error + dashboard_response" where
  "loadDashboard db req =
     (let query = loadDashboard_query req
      in case db query of
           Inl err \<Rightarrow> Inr (Render ''studentDashboard'' [])
         | Inr result \<Rightarrow>
             (case dashboard_messages result result [] of
                Inl e \<Rightarrow> Inl e
              | Inr messages \<Rightarrow> Inr (Render ''studentDashboard'' messages)))"

text \<open>The route: a request that failed the login check is sent to the login page.\<close>

definition dashboard_route ::
  "(string \<Rightarrow> db_error + message_row list) \<Rightarrow> dashboard_request
     \<Rightarrow> js_error + dashboard_response" where
  "dashboard_route db req =
     (if strict_eq (loginValidated req) (Bool False) then Inr (Redirect ''/login'')
      else loadDashboard db req)"

section \<open>The tutor post controller\<close>

subsection \<open>Data\<close>

text \<open>A row as the database client returns it: an object, its columns by name.\<close>

type_synonym js_object = "(string \<times> jsval) list"

definition property :: "js_object \<Rightarrow> string \<Rightarrow> jsval" where
  "property object name = (case map_of object name of None \<Rightarrow> Undefined | Some v \<Rightarrow> v)"

text \<open>
  The request: the form fields, the session's user id, the buffer of the uploaded file
  (\<open>None\<close> when the form carried no file, so that \<open>request.file\<close> is \<open>undefined\<close>), and the
  \<open>postCreated\<close> property the handler writes.
\<close>

record post_request =
  body_majorShortName :: jsval
  body_courseNumber :: jsval
  body_postInfo :: jsval
  post_session_userID :: jsval
  file_buffer :: "blob option"
  postCreated :: jsval

text \<open>
  An error raised after \<open>createTutorPost\<close> has returned, in a callback of the database
  client. Raised in an \<open>async\<close> function it rejects that function's promise, which nothing
  handles; raised in a plain function it is an uncaught exception.
\<close>

datatype raised = UnhandledRejection js_error | UncaughtException js_error

record ('q, 'p) handled_later = "('q, 'p) handled" +
  escaped :: "raised list"

subsection \<open>createTutorPost\<close>

text \<open>
  \<open>mysql.format\<close> and the image pipeline (\<open>sharp(buffer).resize(600, null).toFile('tmp.png')\<close>,
  which fails with a message or succeeds) belong to libraries and are the parameters
  \<open>format\<close> and \<open>sharp\<close>. The file the pipeline writes is not modelled.

  The handler starts the pipeline and calls \<open>callback(request, response)\<close> at once. What
  the \<open>then\<close> and \<open>catch\<close> handlers and the query callbacks do happens afterwards; it is
  what \<open>later\<close> holds: the request, the statements sent and the errors that escaped.
\<close>

definition createTutorPost ::
  "(string \<Rightarrow> jsval list \<Rightarrow> string) \<Rightarrow> (blob \<Rightarrow> string + unit)
     \<Rightarrow> (string \<Rightarrow> db_error + js_object list) \<Rightarrow> post_request \<Rightarrow> 'p
     \<Rightarrow> (post_request \<Rightarrow> 'p \<Rightarrow> 'p) \<Rightarrow> js_error + (post_request, 'p) handled_later" where
  "createTutorPost format sharp db request response callback =
     (let majorShortName = body_majorShortName request;
          courseNumber' = body_courseNumber request;
          postInfo = body_postInfo request;
          majorIdQuery = ''SELECT major_id FROM major WHERE major_short_name = ?'';
          majorIdQueryFormatted = format majorIdQuery [majorShortName];
          courseIdQuery = ''SELECT course_id FROM course WHERE number = ?'';
          courseIdQueryFormatted = format courseIdQuery [courseNumber'];
          userId = post_session_userID request
      in case file_buffer request of
           None \<Rightarrow> Inl TypeError
         | Some buffer \<Rightarrow>
            (let response = callback request response;
                 later =
                   (case sharp buffer of
                      Inl err \<Rightarrow> (request, [], [])
                    | Inr data \<Rightarrow>
                       (let request = request\<lparr>postCreated := Bool False\<rparr>
                        in case db majorIdQueryFormatted of
                             Inl err \<Rightarrow>
                               (request, [majorIdQueryFormatted],
                                [UnhandledRejection (DbFailure err)])
                           | Inr result \<Rightarrow>
                               if length result \<ge> 0 then
                                 (case result of
                                    [] \<Rightarrow>
                                      (request, [majorIdQueryFormatted],
                                       [UnhandledRejection TypeError])
                                  | row # _ \<Rightarrow>
                                     (let major_id' = property row ''major_id''
                                      in case db courseIdQueryFormatted of
                                           Inl err \<Rightarrow>
                                             (request,
                                              [majorIdQueryFormatted, courseIdQueryFormatted],
                                              [UncaughtException (DbFailure err)])
                                         | Inr result \<Rightarrow>
                                             if length result > 0 then
                                               (let sqlInsert = ''INSERT INTO tutor_post (tutor_id, post_created, post_details, post_image) VALUES (?,?,?,?)''
                                                in (request,
                                                    [majorIdQueryFormatted,
                                                     courseIdQueryFormatted], []))
                                             else
                                               (request,
                                                [majorIdQueryFormatted,
                                                 courseIdQueryFormatted], [])))
                               else (request, [majorIdQueryFormatted], [])))
             in Inr \<lparr>request_after = fst later, response_after = response,
                     queries_sent = fst (snd later), callback_calls = 1,
                     escaped = snd (snd later)\<rparr>))"

text \<open>The route \<open>POST /\<close>: the callback redirects to the site root.\<close>

definition post_route ::
  "(string \<Rightarrow> jsval list \<Rightarrow> string) \<Rightarrow> (blob \<Rightarrow> string + unit)
     \<Rightarrow> (string \<Rightarrow> db_error + js_object list) \<Rightarrow> post_request
     \<Rightarrow> js_error + (post_request, string list) handled_later" where
  "post_route format sharp db req =
     createTutorPost format sharp db req [] (\<lambda>req res. res @ [''/''])"

section \<open>Example data\<close>

text \<open>Concrete requests and databases at which the properties below are evaluated.\<close>

definition example_row :: "int \<Rightarrow> search_row" where
  "example_row i =
     \<lparr>first_name = ''Alice'', last_name = ''Ng'', user_id = i,
      thumbnail = (if even i then Some [nat i] else None),
      admin_approved = 1, tutoring_course_id = 7, courseNumber = 648,
      courseTitle = ''Software Engineering'',
      row_major_long_name = ''Computer Science'', row_major_short_name = ''CSC''\<rparr>"

definition example_rows :: "search_row list" where
  "example_rows =
     [example_row 0, example_row 1, example_row 2, example_row 3, example_row 4,
      example_row 5, example_row 6, example_row 7, example_row 8, example_row 9,
      example_row 10, example_row 11]"

definition example_search_db :: "string \<Rightarrow> db_error + search_row list" where
  "example_search_db text = Inr example_rows"

definition failing_search_db :: "string \<Rightarrow> db_error + search_row list" where
  "failing_search_db text = Inl ''ECONNREFUSED''"

definition example_search_request :: search_request where
  "example_search_request =
     \<lparr>query_search = Str ''al'', query_category = Str ''CSC'', query_page = Str ''3'',
      majors_short_name = None, majors_long_name = None,
      searchResult = ResultText [], searchTerm = Undefined, category = Undefined,
      images = None, pageNum = Undefined, upperBound = Undefined, lowerBound = Undefined,
      thumbnails = None, totalNum = Undefined\<rparr>"

definition example_search_response :: search_response where
  "example_search_response =
     \<lparr>searchCategoriesShortName = None, searchCategoriesLongName = None\<rparr>"

definition failing_major_db :: "string \<Rightarrow> db_error + major_row list" where
  "failing_major_db text = Inl ''ECONNREFUSED''"

definition example_message :: message_row where
  "example_message =
     \<lparr>message_id = 1, date_sent = ''2021-12-01 10:00:00'', message_text = ''Hello'',
      to_user = 2, from_user = 5, is_unread = 1,
      from_user_first_name = ''Bob'', from_user_last_name = ''Lee''\<rparr>"

definition example_dashboard_request :: dashboard_request where
  "example_dashboard_request = \<lparr>session_userID = Number (Num 9), loginValidated = Bool True\<rparr>"

definition one_message_db :: "string \<Rightarrow> db_error + message_row list" where
  "one_message_db text = Inr [example_message]"

definition two_message_db :: "string \<Rightarrow> db_error + message_row list" where
  "two_message_db text =
     Inr [example_message, example_message\<lparr>message_id := 2, is_unread := 0\<rparr>]"

definition failing_message_db :: "string \<Rightarrow> db_error + message_row list" where
  "failing_message_db text = Inl ''ECONNREFUSED''"

text \<open>A stand-in for \<open>mysql.format\<close> that puts the value, quoted, in place of the \<open>?\<close> that
  ends the statement.\<close>

definition example_format :: "string \<Rightarrow> jsval list \<Rightarrow> string" where
  "example_format sql vals =
     butlast sql @ [CHR 0x27] @ concat (map to_string vals) @ [CHR 0x27]"

definition example_post_request :: post_request where
  "example_post_request =
     \<lparr>body_majorShortName = Str ''CSC'', body_courseNumber = Str ''648'',
      body_postInfo = Str ''I tutor CSC 648'', post_session_userID = Number (Num 9),
      file_buffer = Some [137, 80, 78, 71], postCreated = Undefined\<rparr>"

definition sharp_ok :: "blob \<Rightarrow> string + unit" where
  "sharp_ok buffer = Inr ()"


definition failing_post_db :: "string \<Rightarrow> db_error + js_object list" where
  "failing_post_db text = Inl ''ECONNREFUSED''"

text \<open>A database in which the major is found and the course lookup fails.\<close>

definition course_failing_post_db :: "string \<Rightarrow> db_error + js_object list" where
  "course_failing_post_db text =
     (if text = example_format ''SELECT major_id FROM major WHERE major_short_name = ?''
                  [Str ''CSC'']
      then Inr [[(''major_id'', Number (Num 3))]]
      else Inl ''ER_NO_SUCH_TABLE'')"

section \<open>Properties\<close>

subsection \<open>Auxiliary facts\<close>






lemma search_query_with_term:
  assumes "searchTerm' \<noteq> Str []"
  shows "search_query searchTerm' category' = query_term_only searchTerm' (Str [])"
proof -
  have "\<not> strict_eq searchTerm' (Str [])"
    using assms by (cases "(searchTerm', Str [])" rule: strict_eq.cases) auto
  then show ?thesis
    by (simp add: search_query_def query_term_and_category_def query_term_only_def)
qed

lemma dashboard_messages_two_rows:
  assumes "2 \<le> length result"
  shows "dashboard_messages result rows messages =
         Inr (messages @ map (\<lambda>row.
                \<lparr>tutorName = from_user_first_name row @ '' '' @ from_user_last_name row,
                 messageText = message_text row,
                 dateTime = date_sent row,
                 status = (if is_unread (result ! 1) \<noteq> 0 then ''Unread'' else ''Read'')\<rparr>)
              rows)"
proof -
  from assms obtain r0 r1 rs where r: "result = r0 # r1 # rs"
    by (cases result; cases "tl result") auto
  show ?thesis
    unfolding r by (induction rows arbitrary: messages) simp_all
qed

lemma example_major_text:
  "example_format ''SELECT major_id FROM major WHERE major_short_name = ?'' [Str ''CSC'']
   = ''SELECT major_id FROM major WHERE major_short_name = '' @ [CHR 0x27] @ ''CSC'' @ [CHR 0x27]"
  by (simp add: example_format_def)

lemma example_course_text:
  "example_format ''SELECT course_id FROM course WHERE number = ?'' [Str ''648'']
   = ''SELECT course_id FROM course WHERE number = '' @ [CHR 0x27] @ ''648'' @ [CHR 0x27]"
  by (simp add: example_format_def)

lemma course_failing_post_db_major:
  "course_failing_post_db
     (example_format ''SELECT major_id FROM major WHERE major_short_name = ?''
        [body_majorShortName example_post_request])
   = Inr [[(''major_id'', Number (Num 3))]]"
  by (simp add: course_failing_post_db_def example_post_request_def)

lemma course_failing_post_db_course:
  "course_failing_post_db
     (example_format ''SELECT course_id FROM course WHERE number = ?''
        [body_courseNumber example_post_request])
   = Inl ''ER_NO_SUCH_TABLE''"
  unfolding course_failing_post_db_def example_post_request_def
  by (simp add: example_major_text example_course_text)




subsection \<open>The claims\<close>





text \<open>
  Claim C3. Whatever the database answers, \<open>getSearchCategories\<close> returns normally, sends
  the one statement and calls the next function exactly once. When the query fails, the
  two name lists on the request are empty arrays and the response is left as it was;
  when it succeeds they hold the short and the long names of the rows.
\<close>

theorem getSearchCategories_degrades:
  "\<exists>h. getSearchCategories db request response = Inr h
       \<and> callback_calls h = 1
       \<and> queries_sent h = [''SELECT * FROM major'']
       \<and> (\<forall>err. db ''SELECT * FROM major'' = Inl err \<longrightarrow>
              majors_short_name (request_after h) = Some []
              \<and> majors_long_name (request_after h) = Some []
              \<and> response_after h = response)
       \<and> (\<forall>result. db ''SELECT * FROM major'' = Inr result \<longrightarrow>
              majors_short_name (request_after h) = Some (map major_short_name result)
              \<and> majors_long_name (request_after h) = Some (map major_long_name result))"
  by (cases "db ''SELECT * FROM major''")
     (simp_all add: getSearchCategories_def categories_query_def Let_def)

text \<open>The theorem at a concrete input.\<close>

theorem getSearchCategories_degrades_witness:
  "failing_major_db ''SELECT * FROM major'' = Inl ''ECONNREFUSED''
   \<and> getSearchCategories failing_major_db example_search_request example_search_response =
       Inr \<lparr>request_after = example_search_request
                \<lparr>majors_short_name := Some [], majors_long_name := Some []\<rparr>,
            response_after = example_search_response,
            queries_sent = [''SELECT * FROM major''], callback_calls = 1\<rparr>"
proof -
  have f: "failing_major_db ''SELECT * FROM major'' = Inl ''ECONNREFUSED''"
    by (simp add: failing_major_db_def)
  from getSearchCategories_degrades
         [of failing_major_db example_search_request example_search_response]
  obtain h where h: "getSearchCategories failing_major_db example_search_request
                       example_search_response = Inr h"
    and c: "callback_calls h = 1" and q: "queries_sent h = [''SELECT * FROM major'']"
    and e: "\<forall>err. failing_major_db ''SELECT * FROM major'' = Inl err \<longrightarrow>
              majors_short_name (request_after h) = Some []
              \<and> majors_long_name (request_after h) = Some []
              \<and> response_after h = example_search_response"
    by blast
  from h have "request_after h = example_search_request
                 \<lparr>majors_short_name := Some [], majors_long_name := Some []\<rparr>"
    by (auto simp: getSearchCategories_def Let_def f categories_query_def)
  with h c q e f show ?thesis by simp
qed

text \<open>
  Claim C4. When the term and the category are both the empty string, \<open>search\<close> keeps the
  default statement, whose only condition is \<open>tutor_post.admin_approved = 1\<close>: this is the
  one statement it sends, and every row the database returns for it is counted in
  \<open>request.totalNum\<close>. Which rows satisfy the statement is the database's part.
\<close>

theorem search_unfiltered:
  "search_query (Str []) (Str []) = query_default
   \<and> query_default =
      ''SELECT users.first_name,\<newline>'' @
      ''       users.last_name,\<newline>'' @
      ''       tutor_post.user_id,\<newline>'' @
      ''       tutor_post.post_thumbnail AS thumbnail,\<newline>'' @
      ''       tutor_post.admin_approved,\<newline>'' @
      ''       tutor_post.tutoring_course_id,\<newline>'' @
      ''       course.number AS courseNumber,\<newline>'' @
      ''       course.title AS courseTitle,\<newline>'' @
      ''       major.major_long_name,\<newline>'' @
      ''       major.major_short_name\<newline>'' @
      ''FROM tutor_post\<newline>'' @
      ''JOIN users ON tutor_post.user_id = users.user_id\<newline>'' @
      ''JOIN course ON tutor_post.tutoring_course_id = course.course_id\<newline>'' @
      ''JOIN major ON course.major = major.major_id\<newline>'' @
      ''WHERE tutor_post.admin_approved = 1''
   \<and> (\<exists>h. search db to_base64 (request\<lparr>query_search := Str [], query_category := Str []\<rparr>)
               response = Inr h
          \<and> queries_sent h = [query_default]
          \<and> callback_calls h = 1
          \<and> (\<forall>result. db query_default = Inr result \<longrightarrow>
                 totalNum (request_after h) = Number (Num (int (length result)))))"
proof -
  have q: "search_query (Str []) (Str []) = query_default"
    by (simp add: search_query_def)
  have h: "\<exists>h. search db to_base64 (request\<lparr>query_search := Str [], query_category := Str []\<rparr>)
               response = Inr h
          \<and> queries_sent h = [query_default]
          \<and> callback_calls h = 1
          \<and> (\<forall>result. db query_default = Inr result \<longrightarrow>
                 totalNum (request_after h) = Number (Num (int (length result))))"
    by (cases "db query_default") (simp_all add: search_def Let_def q)
  show ?thesis
    using q h unfolding query_default_def by blast
qed

text \<open>The theorem at a concrete input.\<close>

theorem search_unfiltered_witness:
  "example_search_db query_default = Inr example_rows
   \<and> (\<exists>h. search example_search_db id
              (example_search_request\<lparr>query_search := Str [], query_category := Str []\<rparr>)
              example_search_response = Inr h
          \<and> queries_sent h = [query_default]
          \<and> totalNum (request_after h) = Number (Num 12))"
  using search_unfiltered [of example_search_db id example_search_request
                              example_search_response]
  by (auto simp: example_search_db_def example_rows_def)

text \<open>
  Claim C5. Two requests that differ only in the session's user id give the same statement,
  the one that selects the messages sent to user \<open>2\<close>, and, on the same database, the same
  outcome of \<open>loadDashboard\<close>.
\<close>

theorem loadDashboard_ignores_session_user:
  "loadDashboard_query (req\<lparr>session_userID := u1\<rparr>) =
     loadDashboard_query (req\<lparr>session_userID := u2\<rparr>)
   \<and> loadDashboard_query req =
      ''SELECT messages.message_id,\<newline>'' @
      ''       messages.date_sent,\<newline>'' @
      ''       messages.message_text,\<newline>'' @
      ''       messages.to_user,\<newline>'' @
      ''       messages.from_user,\<newline>'' @
      ''       messages.is_unread,\<newline>'' @
      ''       users.first_name AS from_user_first_name,\<newline>'' @
      ''       users.last_name AS from_user_last_name\<newline>'' @
      ''FROM messages\<newline>'' @
      ''JOIN users ON users.user_id = messages.from_user\<newline>'' @
      ''WHERE messages.to_user = '' @ ''2'' @ ''\<newline>'' @
      ''ORDER BY messages.date_sent DESC''
   \<and> loadDashboard db (req\<lparr>session_userID := u1\<rparr>) =
       loadDashboard db (req\<lparr>session_userID := u2\<rparr>)"
proof -
  have two: "to_string (Number (Num 2)) = ''2''"
    by code_simp
  have q: "\<And>r. loadDashboard_query r =
      ''SELECT messages.message_id,\<newline>'' @
      ''       messages.date_sent,\<newline>'' @
      ''       messages.message_text,\<newline>'' @
      ''       messages.to_user,\<newline>'' @
      ''       messages.from_user,\<newline>'' @
      ''       messages.is_unread,\<newline>'' @
      ''       users.first_name AS from_user_first_name,\<newline>'' @
      ''       users.last_name AS from_user_last_name\<newline>'' @
      ''FROM messages\<newline>'' @
      ''JOIN users ON users.user_id = messages.from_user\<newline>'' @
      ''WHERE messages.to_user = '' @ ''2'' @ ''\<newline>'' @
      ''ORDER BY messages.date_sent DESC''"
    unfolding loadDashboard_query_def Let_def two by simp
  have "loadDashboard_query (req\<lparr>session_userID := u1\<rparr>) =
          loadDashboard_query (req\<lparr>session_userID := u2\<rparr>)"
    by (simp add: loadDashboard_query_def Let_def)
  then show ?thesis
    using q [of req] by (simp add: loadDashboard_def Let_def)
qed

text \<open>
  Claim C6, for result sets of at least two rows. Every row becomes one entry of the
  rendered list, and the status of every entry is \<open>Unread\<close> if the row at index \<open>1\<close> is
  unread and \<open>Read\<close> otherwise, whatever the row's own flag: an entry's status is
  \<open>Unread\<close> exactly when row \<open>1\<close> is unread.
\<close>

theorem loadDashboard_status_from_row_1:
  assumes "db (loadDashboard_query req) = Inr result" and "2 \<le> length result"
  shows "loadDashboard db req =
         Inr (Render ''studentDashboard'' (map (\<lambda>row.
                \<lparr>tutorName = from_user_first_name row @ '' '' @ from_user_last_name row,
                 messageText = message_text row,
                 dateTime = date_sent row,
                 status = (if is_unread (result ! 1) \<noteq> 0 then ''Unread'' else ''Read'')\<rparr>)
              result))
       \<and> (\<exists>messages. loadDashboard db req = Inr (Render ''studentDashboard'' messages)
             \<and> length messages = length result
             \<and> (\<forall>m \<in> set messages.
                    (status m = ''Unread'') = (is_unread (result ! 1) \<noteq> 0)))"
  using assms by (auto simp: loadDashboard_def Let_def dashboard_messages_two_rows)

text \<open>The theorem at a concrete input.\<close>

theorem loadDashboard_status_from_row_1_witness:
  "two_message_db (loadDashboard_query example_dashboard_request) =
     Inr [example_message, example_message\<lparr>message_id := 2, is_unread := 0\<rparr>]
   \<and> (2::nat) \<le> length [example_message, example_message\<lparr>message_id := 2, is_unread := 0\<rparr>]
   \<and> is_unread example_message = 1
   \<and> loadDashboard two_message_db example_dashboard_request =
       Inr (Render ''studentDashboard''
         [\<lparr>tutorName = ''Bob Lee'', messageText = ''Hello'',
           dateTime = ''2021-12-01 10:00:00'', status = ''Read''\<rparr>,
          \<lparr>tutorName = ''Bob Lee'', messageText = ''Hello'',
           dateTime = ''2021-12-01 10:00:00'', status = ''Read''\<rparr>])"
proof -
  have d: "two_message_db (loadDashboard_query example_dashboard_request) =
     Inr [example_message, example_message\<lparr>message_id := 2, is_unread := 0\<rparr>]"
    by (simp add: two_message_db_def)
  have l: "(2::nat) \<le> length [example_message, example_message\<lparr>message_id := 2, is_unread := 0\<rparr>]"
    by simp
  show ?thesis
    using d l loadDashboard_status_from_row_1
            [of two_message_db example_dashboard_request
                "[example_message, example_message\<lparr>message_id := 2, is_unread := 0\<rparr>]"]
    by (simp add: example_message_def)
qed

text \<open>
  Claim C6 as stated covers every non-empty result set. With a single row there is no row
  at index \<open>1\<close>: the loop raises a \<open>TypeError\<close> in its first round and no entry is rendered.
\<close>

theorem loadDashboard_single_row_raises:
  "one_message_db (loadDashboard_query example_dashboard_request) = Inr [example_message]
   \<and> loadDashboard one_message_db example_dashboard_request = Inl TypeError"
  by (simp add: one_message_db_def loadDashboard_def Let_def)

text \<open>
  Claim C7. In \<open>createTutorPost\<close>, once the image is resized, an error of the major-id
  lookup is raised again in the query callback and nothing handles it, and so is an error
  of the course-id lookup that follows a major-id lookup with at least one row. In
  \<open>getSearchCategories\<close>, \<open>search\<close> and \<open>loadDashboard\<close> a database error ends in the
  empty lists, the default values and the empty message list.
\<close>

theorem createTutorPost_raises_database_errors:
  assumes "file_buffer request = Some buffer" and "sharp buffer = Inr data"
  shows
    "(db (format ''SELECT major_id FROM major WHERE major_short_name = ?''
            [body_majorShortName request]) = Inl err \<longrightarrow>
        (\<exists>h. createTutorPost format sharp db request response callback = Inr h
           \<and> escaped h = [UnhandledRejection (DbFailure err)]))
   \<and> (db (format ''SELECT major_id FROM major WHERE major_short_name = ?''
            [body_majorShortName request]) = Inr (row # rows)
      \<and> db (format ''SELECT course_id FROM course WHERE number = ?''
            [body_courseNumber request]) = Inl err \<longrightarrow>
        (\<exists>h. createTutorPost format sharp db request response callback = Inr h
           \<and> escaped h = [UncaughtException (DbFailure err)]))
   \<and> (major_db categories_query = Inl err \<longrightarrow>
        (\<exists>h. getSearchCategories major_db search_req search_res = Inr h
           \<and> majors_short_name (request_after h) = Some []
           \<and> majors_long_name (request_after h) = Some []))
   \<and> (search_db (search_query (query_search search_req) (query_category search_req)) = Inl err
        \<longrightarrow>
        (\<exists>h. search search_db encode search_req search_res = Inr h
           \<and> searchResult (request_after h) = ResultText []
           \<and> searchTerm (request_after h) = Str []
           \<and> category (request_after h) = Str []
           \<and> images (request_after h) = Some []
           \<and> upperBound (request_after h) = Str []
           \<and> lowerBound (request_after h) = Str []))
   \<and> (message_db (loadDashboard_query dashboard_req) = Inl err \<longrightarrow>
        loadDashboard message_db dashboard_req = Inr (Render ''studentDashboard'' []))"
proof (intro conjI impI)
  assume "db (format ''SELECT major_id FROM major WHERE major_short_name = ?''
            [body_majorShortName request]) = Inl err"
  then show "\<exists>h. createTutorPost format sharp db request response callback = Inr h
           \<and> escaped h = [UnhandledRejection (DbFailure err)]"
    using assms by (simp add: createTutorPost_def Let_def)
next
  assume "db (format ''SELECT major_id FROM major WHERE major_short_name = ?''
            [body_majorShortName request]) = Inr (row # rows)
      \<and> db (format ''SELECT course_id FROM course WHERE number = ?''
            [body_courseNumber request]) = Inl err"
  then show "\<exists>h. createTutorPost format sharp db request response callback = Inr h
           \<and> escaped h = [UncaughtException (DbFailure err)]"
    using assms by (simp add: createTutorPost_def Let_def)
next
  assume "major_db categories_query = Inl err"
  then show "\<exists>h. getSearchCategories major_db search_req search_res = Inr h
           \<and> majors_short_name (request_after h) = Some []
           \<and> majors_long_name (request_after h) = Some []"
    by (simp add: getSearchCategories_def Let_def)
next
  assume "search_db (search_query (query_search search_req) (query_category search_req))
            = Inl err"
  then show "\<exists>h. search search_db encode search_req search_res = Inr h
           \<and> searchResult (request_after h) = ResultText []
           \<and> searchTerm (request_after h) = Str []
           \<and> category (request_after h) = Str []
           \<and> images (request_after h) = Some []
           \<and> upperBound (request_after h) = Str []
           \<and> lowerBound (request_after h) = Str []"
    by (simp add: search_def Let_def)
next
  assume "message_db (loadDashboard_query dashboard_req) = Inl err"
  then show "loadDashboard message_db dashboard_req = Inr (Render ''studentDashboard'' [])"
    by (simp add: loadDashboard_def Let_def)
qed

text \<open>The theorem at a concrete input.\<close>

theorem createTutorPost_raises_database_errors_witness:
  "(\<exists>h. post_route example_format sharp_ok failing_post_db example_post_request = Inr h
         \<and> escaped h = [UnhandledRejection (DbFailure ''ECONNREFUSED'')])
   \<and> (\<exists>h. post_route example_format sharp_ok course_failing_post_db example_post_request = Inr h
         \<and> escaped h = [UncaughtException (DbFailure ''ER_NO_SUCH_TABLE'')])
   \<and> (\<exists>h. getSearchCategories failing_major_db example_search_request
              example_search_response = Inr h
         \<and> majors_short_name (request_after h) = Some []
         \<and> majors_long_name (request_after h) = Some [])
   \<and> (\<exists>h. search failing_search_db id example_search_request example_search_response = Inr h
         \<and> searchResult (request_after h) = ResultText []
         \<and> searchTerm (request_after h) = Str []
         \<and> category (request_after h) = Str []
         \<and> images (request_after h) = Some []
         \<and> upperBound (request_after h) = Str []
         \<and> lowerBound (request_after h) = Str [])
   \<and> loadDashboard failing_message_db example_dashboard_request =
       Inr (Render ''studentDashboard'' [])"
proof -
  have fb: "file_buffer example_post_request = Some [137, 80, 78, 71]"
    by (simp add: example_post_request_def)
  have sh: "sharp_ok [137, 80, 78, 71] = Inr ()"
    by (simp add: sharp_ok_def)
  note a = createTutorPost_raises_database_errors
    [where request = example_post_request and buffer = "[137, 80, 78, 71]"
       and sharp = sharp_ok and data = "()" and db = failing_post_db and format = example_format
       and err = "''ECONNREFUSED''" and response = "[]"
       and callback = "\<lambda>req res. res @ [''/'']"
       and major_db = failing_major_db and search_db = failing_search_db
       and message_db = failing_message_db and search_req = example_search_request
       and search_res = example_search_response and encode = id
       and dashboard_req = example_dashboard_request, OF fb sh]
  note b = createTutorPost_raises_database_errors
    [where request = example_post_request and buffer = "[137, 80, 78, 71]"
       and sharp = sharp_ok and data = "()" and db = course_failing_post_db
       and format = example_format
       and err = "''ER_NO_SUCH_TABLE''" and response = "[]"
       and callback = "\<lambda>req res. res @ [''/'']"
       and row = "[(''major_id'', Number (Num 3))]" and rows = "[]", OF fb sh]
  from a have a': "(\<exists>h. post_route example_format sharp_ok failing_post_db example_post_request = Inr h
         \<and> escaped h = [UnhandledRejection (DbFailure ''ECONNREFUSED'')])
   \<and> (\<exists>h. getSearchCategories failing_major_db example_search_request
              example_search_response = Inr h
         \<and> majors_short_name (request_after h) = Some []
         \<and> majors_long_name (request_after h) = Some [])
   \<and> (\<exists>h. search failing_search_db id example_search_request example_search_response = Inr h
         \<and> searchResult (request_after h) = ResultText []
         \<and> searchTerm (request_after h) = Str []
         \<and> category (request_after h) = Str []
         \<and> images (request_after h) = Some []
         \<and> upperBound (request_after h) = Str []
         \<and> lowerBound (request_after h) = Str [])
   \<and> loadDashboard failing_message_db example_dashboard_request =
       Inr (Render ''studentDashboard'' [])"
    unfolding post_route_def
    by (simp add: failing_post_db_def failing_major_db_def failing_search_db_def
          failing_message_db_def)
  from b have b': "\<exists>h. post_route example_format sharp_ok course_failing_post_db example_post_request = Inr h
         \<and> escaped h = [UncaughtException (DbFailure ''ER_NO_SUCH_TABLE'')]"
    unfolding post_route_def
    using course_failing_post_db_major course_failing_post_db_course by blast
  from a' b' show ?thesis by blast
qed




text \<open>
  Claim C9. When the search and the category parameter are both absent, both values are
  \<open>undefined\<close>, which is not the empty string: \<open>search\<close> takes the first branch and sends
  the statement that matches first and last names against \<open>%undefined%\<close>, which is not
  the default statement.
\<close>

theorem search_absent_parameters:
  "search_query Undefined Undefined =
      ''SELECT users.first_name,\<newline>'' @
      ''       users.last_name,\<newline>'' @
      ''       tutor_post.user_id,\<newline>'' @
      ''       tutor_post.post_thumbnail AS thumbnail,\<newline>'' @
      ''       tutor_post.admin_approved,\<newline>'' @
      ''       tutor_post.tutoring_course_id,\<newline>'' @
      ''       course.number AS courseNumber,\<newline>'' @
      ''       course.title AS courseTitle,\<newline>'' @
      ''       major.major_long_name,\<newline>'' @
      ''       major.major_short_name\<newline>'' @
      ''FROM tutor_post\<newline>'' @
      ''JOIN users ON tutor_post.user_id = users.user_id\<newline>'' @
      ''JOIN course ON tutor_post.tutoring_course_id = course.course_id\<newline>'' @
      ''JOIN major ON course.major = major.major_id\<newline>'' @
      ''WHERE tutor_post.admin_approved = 1 AND'' @
      ''(users.first_name LIKE '%'' @ ''undefined'' @ ''%' OR users.last_name LIKE '%'' @ ''undefined'' @ ''%')''
   \<and> search_query Undefined Undefined \<noteq> query_default
   \<and> (\<exists>h. search db to_base64
              (request\<lparr>query_search := Undefined, query_category := Undefined\<rparr>) response = Inr h
          \<and> queries_sent h = [query_term_and_category Undefined Undefined])"
proof -
  have q: "search_query Undefined Undefined = query_term_and_category Undefined Undefined"
    by (simp add: search_query_def)
  have t: "query_term_and_category Undefined Undefined =
      ''SELECT users.first_name,\<newline>'' @
      ''       users.last_name,\<newline>'' @
      ''       tutor_post.user_id,\<newline>'' @
      ''       tutor_post.post_thumbnail AS thumbnail,\<newline>'' @
      ''       tutor_post.admin_approved,\<newline>'' @
      ''       tutor_post.tutoring_course_id,\<newline>'' @
      ''       course.number AS courseNumber,\<newline>'' @
      ''       course.title AS courseTitle,\<newline>'' @
      ''       major.major_long_name,\<newline>'' @
      ''       major.major_short_name\<newline>'' @
      ''FROM tutor_post\<newline>'' @
      ''JOIN users ON tutor_post.user_id = users.user_id\<newline>'' @
      ''JOIN course ON tutor_post.tutoring_course_id = course.course_id\<newline>'' @
      ''JOIN major ON course.major = major.major_id\<newline>'' @
      ''WHERE tutor_post.admin_approved = 1 AND'' @
      ''(users.first_name LIKE '%'' @ ''undefined'' @ ''%' OR users.last_name LIKE '%'' @ ''undefined'' @ ''%')''"
    by (simp add: query_term_and_category_def)
  have n: "query_term_and_category Undefined Undefined \<noteq> query_default"
    by (simp add: query_term_and_category_def query_default_def)
  have h: "\<exists>h. search db to_base64
              (request\<lparr>query_search := Undefined, query_category := Undefined\<rparr>) response = Inr h
          \<and> queries_sent h = [query_term_and_category Undefined Undefined]"
    by (cases "db (query_term_and_category Undefined Undefined)")
       (simp_all add: search_def Let_def q)
  from t n h show ?thesis
    unfolding q by blast
qed

text \<open>
  Claim C10. The statement of the term-and-category branch is the statement of the
  term-only branch. So, when the term is not the empty string, the statement \<open>search\<close>
  builds does not depend on the category, and two runs that differ only in the category
  send the same statement and store the same rows, thumbnails, total, page index and
  bounds. (\<open>request.category\<close> echoes the category that was given.)
\<close>

theorem search_category_ignored_with_term:
  assumes "query_search request \<noteq> Str []"
  shows "query_term_and_category (query_search request) c1 =
           query_term_only (query_search request) c2
       \<and> search_query (query_search request) c1 = search_query (query_search request) c2
       \<and> (\<exists>h1 h2.
             search db to_base64 (request\<lparr>query_category := c1\<rparr>) response = Inr h1
           \<and> search db to_base64 (request\<lparr>query_category := c2\<rparr>) response = Inr h2
           \<and> queries_sent h1 = queries_sent h2
           \<and> searchResult (request_after h1) = searchResult (request_after h2)
           \<and> thumbnails (request_after h1) = thumbnails (request_after h2)
           \<and> totalNum (request_after h1) = totalNum (request_after h2)
           \<and> pageNum (request_after h1) = pageNum (request_after h2)
           \<and> upperBound (request_after h1) = upperBound (request_after h2)
           \<and> lowerBound (request_after h1) = lowerBound (request_after h2)
           \<and> searchTerm (request_after h1) = searchTerm (request_after h2)
           \<and> response_after h1 = response_after h2
           \<and> callback_calls h1 = callback_calls h2)"
proof -
  let ?q = "query_term_only (query_search request) (Str [])"
  have texts: "query_term_and_category (query_search request) c1 =
                 query_term_only (query_search request) c2"
    by (simp add: query_term_and_category_def query_term_only_def)
  have q: "\<And>c. search_query (query_search request) c = ?q"
    using assms by (rule search_query_with_term)
  have runs: "\<exists>h1 h2.
             search db to_base64 (request\<lparr>query_category := c1\<rparr>) response = Inr h1
           \<and> search db to_base64 (request\<lparr>query_category := c2\<rparr>) response = Inr h2
           \<and> queries_sent h1 = queries_sent h2
           \<and> searchResult (request_after h1) = searchResult (request_after h2)
           \<and> thumbnails (request_after h1) = thumbnails (request_after h2)
           \<and> totalNum (request_after h1) = totalNum (request_after h2)
           \<and> pageNum (request_after h1) = pageNum (request_after h2)
           \<and> upperBound (request_after h1) = upperBound (request_after h2)
           \<and> lowerBound (request_after h1) = lowerBound (request_after h2)
           \<and> searchTerm (request_after h1) = searchTerm (request_after h2)
           \<and> response_after h1 = response_after h2
           \<and> callback_calls h1 = callback_calls h2"
    by (cases "db ?q") (simp_all add: search_def Let_def q)
  from texts q runs show ?thesis
    by simp
qed

text \<open>The theorem at a concrete input.\<close>

theorem search_category_ignored_with_term_witness:
  "query_search example_search_request \<noteq> Str []
   \<and> search_query (Str ''al'') (Str ''CSC'') = search_query (Str ''al'') (Str [])
   \<and> search_query (Str ''al'') (Str ''CSC'') = query_term_only (Str ''al'') (Str [])"
proof -
  have h: "query_search example_search_request \<noteq> Str []"
    by (simp add: example_search_request_def)
  have t: "query_search example_search_request = Str ''al''"
    by (simp add: example_search_request_def)
  from search_category_ignored_with_term [OF h, of "Str ''CSC''" "Str []"]
  have "search_query (Str ''al'') (Str ''CSC'') = search_query (Str ''al'') (Str [])"
    and "query_term_and_category (Str ''al'') (Str ''CSC'') = query_term_only (Str ''al'') (Str [])"
    unfolding t by blast+
  moreover have "search_query (Str ''al'') (Str ''CSC'') = query_term_and_category (Str ''al'') (Str ''CSC'')"
    by (simp add: search_query_def)
  ultimately show ?thesis
    using h by simp
qed

end
